theory Spec2Isabelle
  imports Complex_Main "HOL-Library.Multiset"
begin

section \<open>Data model (src/lib/shadowfinder.ts)\<close>

text \<open>
  JavaScript numbers are modelled as exact reals. Every grid coordinate is a multiple of
  \<open>0.5\<close> of small magnitude, which a double represents exactly, so the coordinate
  arithmetic of the sweep is the same in both worlds. The solar position comes from the
  external SunCalc library; it is a parameter \<open>sunAltitude\<close> of the model giving the
  altitude in radians for a time value (milliseconds since the epoch), a latitude and a
  longitude. A \<open>Date\<close> is its time value, \<open>None\<close> for an Invalid Date (time value NaN).
\<close>

type_synonym Date = "int option"

type_synonym SolarAltitude = "int \<Rightarrow> real \<Rightarrow> real \<Rightarrow> real"

record ShadowFinderPoint =
  lat :: real
  lng :: real
  likelihood :: real


record MainBandCoordinates =
  latRange :: "real \<times> real"
  lngRange :: "real \<times> real"

record Statistics =
  totalPoints :: nat
  validPoints :: nat
  nightPoints :: nat
  ultraTightBandPoints :: nat
  tightBandPoints :: nat
  visibleBandPoints :: nat

record ShadowAnalysisResult =
  points :: "ShadowFinderPoint list"
  mainBandCoordinates :: MainBandCoordinates
  statistics :: Statistics

record BestLocation =
  latitude :: real
  longitude :: real
  accuracy :: real

text \<open>
  The exceptions of the program: the two \<open>Error\<close>s of \<open>analyzeShadowMeasurements\<close>, the
  \<open>RangeError\<close> that \<open>Date.prototype.toISOString\<close> throws on an Invalid Date (the first
  statement of \<open>generateShadowFinderGrid\<close> logs \<open>knownTime.toISOString()\<close>), the
  \<open>Error\<close> of \<open>estimateBestLocation\<close>, and the two of \<open>performShadowAnalysis\<close>.
\<close>

datatype error =
    InvalidMeasurements
  | InvalidDateTime
  | RangeErrorInvalidTimeValue
  | NoSuitableLocationMatches
  | ReferencePointsMissing
  | DisplayDimensionsUnknown

section \<open>The grid scan\<close>

definition angularResolution :: real where
  "angularResolution = 0.5"

text \<open>Lines 62-78: the score of one grid point from the solar altitude there.\<close>

definition pointLikelihood :: "real \<Rightarrow> real \<Rightarrow> real \<Rightarrow> real" where
  "pointLikelihood sunAltitudeRad objHeight shLength =
     (if sunAltitudeRad \<le> 0 then - 1
      else
        let calculatedShadowLength = objHeight / tan sunAltitudeRad;
            relativeDiff = (calculatedShadowLength - shLength) / shLength
        in \<bar>relativeDiff\<bar>)"

text \<open>
  The inner loop \<open>for (let lng = -180.0; lng <= 179.5; lng += angularResolution)\<close>,
  pushing one point per iteration onto the array \<open>acc\<close>.
\<close>

function lngLoop ::
  "(real \<Rightarrow> real \<Rightarrow> real) \<Rightarrow> real \<Rightarrow> real \<Rightarrow> ShadowFinderPoint list \<Rightarrow> ShadowFinderPoint list"
where
  "lngLoop score la lo acc =
     (if lo \<le> 179.5
      then lngLoop score la (lo + angularResolution)
             (acc @ [\<lparr>lat = la, lng = lo, likelihood = score la lo\<rparr>])
      else acc)"
  by pat_completeness auto
termination
proof (relation "measure (\<lambda>(score, la, lo, acc). nat \<lceil>(180 - lo) * 2\<rceil>)")
  show "wf (measure (\<lambda>(score :: real \<Rightarrow> real \<Rightarrow> real, la :: real, lo :: real,
                       acc :: ShadowFinderPoint list). nat \<lceil>(180 - lo) * 2\<rceil>))"
    by simp
next
  fix score :: "real \<Rightarrow> real \<Rightarrow> real" and la lo :: real and acc :: "ShadowFinderPoint list"
  assume a: "lo \<le> 179.5"
  have e: "(180 - (lo + angularResolution)) * 2 = (180 - lo) * 2 - 1"
    by (simp add: angularResolution_def algebra_simps)
  have "\<lceil>(180 - (lo + angularResolution)) * 2\<rceil> = \<lceil>(180 - lo) * 2\<rceil> - 1"
    unfolding e by (rule ceiling_diff_one)
  moreover have "0 < \<lceil>(180 - lo) * 2\<rceil>"
    using a by (simp add: ceiling_less_iff)
  ultimately have "nat \<lceil>(180 - (lo + angularResolution)) * 2\<rceil> < nat \<lceil>(180 - lo) * 2\<rceil>"
    by simp
  then show "((score, la, lo + angularResolution,
               acc @ [\<lparr>lat = la, lng = lo, likelihood = score la lo\<rparr>]),
              (score, la, lo, acc))
             \<in> measure (\<lambda>(score, la, lo, acc). nat \<lceil>(180 - lo) * 2\<rceil>)"
    by simp
qed

text \<open>The outer loop \<open>for (let lat = -60.0; lat <= 84.5; lat += angularResolution)\<close>.\<close>

function latLoop ::
  "(real \<Rightarrow> real \<Rightarrow> real) \<Rightarrow> real \<Rightarrow> ShadowFinderPoint list \<Rightarrow> ShadowFinderPoint list"
where
  "latLoop score la acc =
     (if la \<le> 84.5
      then latLoop score (la + angularResolution) (lngLoop score la (- 180.0) acc)
      else acc)"
  by pat_completeness auto
termination
proof (relation "measure (\<lambda>(score, la, acc). nat \<lceil>(85 - la) * 2\<rceil>)")
  show "wf (measure (\<lambda>(score :: real \<Rightarrow> real \<Rightarrow> real, la :: real,
                       acc :: ShadowFinderPoint list). nat \<lceil>(85 - la) * 2\<rceil>))"
    by simp
next
  fix score :: "real \<Rightarrow> real \<Rightarrow> real" and la :: real and acc :: "ShadowFinderPoint list"
  assume a: "la \<le> 84.5"
  have e: "(85 - (la + angularResolution)) * 2 = (85 - la) * 2 - 1"
    by (simp add: angularResolution_def algebra_simps)
  have "\<lceil>(85 - (la + angularResolution)) * 2\<rceil> = \<lceil>(85 - la) * 2\<rceil> - 1"
    unfolding e by (rule ceiling_diff_one)
  moreover have "0 < \<lceil>(85 - la) * 2\<rceil>"
    using a by (simp add: ceiling_less_iff)
  ultimately have "nat \<lceil>(85 - (la + angularResolution)) * 2\<rceil> < nat \<lceil>(85 - la) * 2\<rceil>"
    by simp
  then show "((score, la + angularResolution, lngLoop score la (- 180.0) acc), (score, la, acc))
             \<in> measure (\<lambda>(score, la, acc). nat \<lceil>(85 - la) * 2\<rceil>)"
    by simp
qed

definition generateShadowFinderGrid ::
  "SolarAltitude \<Rightarrow> Date \<Rightarrow> real \<Rightarrow> real \<Rightarrow> error + ShadowFinderPoint list"
where
  "generateShadowFinderGrid sunAltitude kTime objHeight shLength =
     (case kTime of
        None \<Rightarrow> Inl RangeErrorInvalidTimeValue
      | Some t \<Rightarrow>
          Inr (latLoop (\<lambda>la lo. pointLikelihood (sunAltitude t la lo) objHeight shLength)
                 (- 60.0) []))"

section \<open>Band statistics and the main-band envelope\<close>

text \<open>
  \<open>Math.min(...xs)\<close> and \<open>Math.max(...xs)\<close> of a non-empty array. The program spreads
  only arrays it has checked to be non-empty, so the value at the empty array
  (an infinity in JavaScript) is left out of the model.
\<close>

fun mathMin :: "real list \<Rightarrow> real" where
  "mathMin (v # vs) = fold min vs v"

fun mathMax :: "real list \<Rightarrow> real" where
  "mathMax (v # vs) = fold max vs v"



section \<open>Measurements from marked image points\<close>



section \<open>The best-location estimator\<close>

text \<open>
  \<open>Array.prototype.sort\<close> with the comparator \<open>a.likelihood - b.likelihood\<close> is a stable
  ascending sort on the likelihood, as \<open>sort_key\<close> is; \<open>reduce\<close> is a left fold.
\<close>

definition estimateBestLocation :: "ShadowAnalysisResult \<Rightarrow> error + BestLocation" where
  "estimateBestLocation result =
     (let bestPoints =
            sort_key likelihood
              (filter (\<lambda>p. likelihood p \<ge> 0 \<and> likelihood p \<le> 0.1) (points result))
      in if length bestPoints = 0 then Inl NoSuitableLocationMatches
         else
           let avgLat = foldl (\<lambda>sum p. sum + lat p) 0 bestPoints / real (length bestPoints);
               avgLng = foldl (\<lambda>sum p. sum + lng p) 0 bestPoints / real (length bestPoints);
               latSpread = mathMax (map lat bestPoints) - mathMin (map lat bestPoints);
               lngSpread = mathMax (map lng bestPoints) - mathMin (map lng bestPoints);
               acc = max (latSpread * 111) (lngSpread * 111 * cos (avgLat * pi / 180)) / 2
           in Inr \<lparr>latitude = avgLat, longitude = avgLng, accuracy = max acc 1\<rparr>)"

section \<open>The intersection of two scans (src/components/ShadowFinderVisualization.tsx)\<close>


text \<open>
  \<open>Number.prototype.toFixed(1)\<close> for a number of magnitude below \<open>10^21\<close>: the sign, then
  the integer \<open>n\<close> nearest to ten times the magnitude (the larger one on a tie), written in
  decimal with a point before its last digit.
\<close>

definition digitChar :: "nat \<Rightarrow> char" where
  "digitChar d = char_of (48 + d)"

fun digits :: "nat \<Rightarrow> string" where
  "digits n = (if n < 10 then [digitChar n] else digits (n div 10) @ [digitChar (n mod 10)])"






section \<open>The two-photo session (src/pages/Index.tsx)\<close>
















section \<open>Auxiliary notions used to state the properties\<close>

text \<open>The grid cell in row \<open>i\<close> and column \<open>j\<close>, scored by \<open>score\<close>.\<close>

definition gridPoint :: "(real \<Rightarrow> real \<Rightarrow> real) \<Rightarrow> nat \<Rightarrow> nat \<Rightarrow> ShadowFinderPoint" where
  "gridPoint score i j =
     \<lparr>lat = - 60 + real i / 2, lng = - 180 + real j / 2,
      likelihood = score (- 60 + real i / 2) (- 180 + real j / 2)\<rparr>"

text \<open>A band: a likelihood between \<open>0\<close> and an inclusive upper threshold.\<close>

definition inBand :: "real \<Rightarrow> ShadowFinderPoint \<Rightarrow> bool" where
  "inBand thr p \<longleftrightarrow> 0 \<le> likelihood p \<and> likelihood p \<le> thr"

text \<open>The main-band selection of a point list, and the spread of a coordinate over a list.\<close>

definition bestSelection :: "ShadowFinderPoint list \<Rightarrow> ShadowFinderPoint list" where
  "bestSelection pts = filter (inBand 0.1) pts"

definition spread :: "(ShadowFinderPoint \<Rightarrow> real) \<Rightarrow> ShadowFinderPoint list \<Rightarrow> real" where
  "spread f ps = Max (f ` set ps) - Min (f ` set ps)"

text \<open>
  Two test doubles for the solar-position provider: the sun below the horizon everywhere
  (altitude \<open>-0.1\<close>), and the sun 45 degrees high everywhere.
\<close>

definition sunAlwaysDown :: SolarAltitude where
  "sunAlwaysDown t la lo = - 0.1"







declare lngLoop.simps [simp del] latLoop.simps [simp del] digits.simps [simp del]

section \<open>The shape of the grid scan\<close>

lemma lngLoop_from:
  "k \<le> 720 \<Longrightarrow>
   lngLoop score la (- 180 + real k / 2) acc
     = acc @ map (\<lambda>j. \<lparr>lat = la, lng = - 180 + real j / 2,
                        likelihood = score la (- 180 + real j / 2)\<rparr>) [k..<720]"
proof (induction "720 - k" arbitrary: k acc)
  case 0
  then have k: "k = 720" by simp
  show ?case unfolding k by (subst lngLoop.simps) simp
next
  case (Suc n)
  then have lt: "k < 720" and n: "n = 720 - Suc k" and le: "Suc k \<le> 720" by simp_all
  have c: "- 180 + real k / 2 \<le> 179.5" using lt by simp
  have step: "- 180 + real k / 2 + angularResolution = - 180 + real (Suc k) / 2"
    by (simp add: angularResolution_def add_divide_distrib)
  show ?case
    apply (subst lngLoop.simps)
    apply (simp only: c if_True step Suc.hyps(1)[OF n le])
    apply (simp add: upt_conv_Cons[OF lt])
    done
qed

lemma latLoop_from:
  "k \<le> 290 \<Longrightarrow>
   latLoop score (- 60 + real k / 2) acc
     = acc @ concat (map (\<lambda>i. map (gridPoint score i) [0..<720]) [k..<290])"
proof (induction "290 - k" arbitrary: k acc)
  case 0
  then have k: "k = 290" by simp
  show ?case unfolding k by (subst latLoop.simps) simp
next
  case (Suc n)
  then have lt: "k < 290" and n: "n = 290 - Suc k" and le: "Suc k \<le> 290" by simp_all
  have c: "- 60 + real k / 2 \<le> 84.5" using lt by simp
  have step: "- 60 + real k / 2 + angularResolution = - 60 + real (Suc k) / 2"
    by (simp add: angularResolution_def add_divide_distrib)
  have row: "lngLoop score (- 60 + real k / 2) (- 180.0) acc
               = acc @ map (gridPoint score k) [0..<720]"
    using lngLoop_from[of 0 score "- 60 + real k / 2" acc] by (simp add: gridPoint_def)
  show ?case
    apply (subst latLoop.simps)
    apply (simp only: c if_True step row Suc.hyps(1)[OF n le])
    apply (simp add: upt_conv_Cons[OF lt])
    done
qed

lemma latLoop_grid:
  "latLoop score (- 60) [] = concat (map (\<lambda>i. map (gridPoint score i) [0..<720]) [0..<290])"
  using latLoop_from[of 0 score "[]"] by simp

lemma latLoop_product:
  "latLoop score (- 60) [] = map (\<lambda>(i, j). gridPoint score i j) (List.product [0..<290] [0..<720])"
  unfolding latLoop_grid by (simp add: product_concat_map map_concat comp_def)

lemma length_grid: "length (latLoop score (- 60) []) = 208800"
  unfolding latLoop_product by simp

lemma nth_grid:
  assumes "i < 290" "j < 720"
  shows "latLoop score (- 60) [] ! (i * 720 + j) = gridPoint score i j"
proof -
  have n: "i * 720 + j < 290 * 720"
  proof -
    have "i * 720 + j < i * 720 + 720" using assms by simp
    also have "\<dots> = Suc i * 720" by simp
    also have "\<dots> \<le> 290 * 720" using assms by (intro mult_le_mono1) simp
    finally show ?thesis .
  qed
  have "List.product [0..<290] [0..<720] ! (i * 720 + j) = (i, j)"
    using n assms by (simp add: product_nth)
  then show ?thesis unfolding latLoop_product using n by simp
qed


lemma set_grid:
  "set (latLoop score (- 60) []) = {gridPoint score i j | i j. i < 290 \<and> j < 720}"
  unfolding latLoop_product by (auto simp: image_iff) blast+

text \<open>
  Claim C2. For a valid timestamp (and any measurement, so in particular every valid one)
  the grid scan returns exactly 290 * 720 = 208800 points in row-major order: the point at
  index \<open>i * 720 + j\<close> has latitude \<open>-60 + i/2\<close> and longitude \<open>-180 + j/2\<close>. Every
  latitude lies in [-60, 84.5], every longitude in [-180, 179.5], and both are integer
  multiples of the 0.5 degree step.
\<close>

theorem grid_scan_shape:
  "\<exists>ps. generateShadowFinderGrid sunAltitude (Some t) objHeight shLength = Inr ps
      \<and> length ps = 208800
      \<and> (\<forall>i<290. \<forall>j<720. lat (ps ! (i * 720 + j)) = - 60 + real i / 2
                           \<and> lng (ps ! (i * 720 + j)) = - 180 + real j / 2)
      \<and> (\<forall>p\<in>set ps. - 60 \<le> lat p \<and> lat p \<le> 84.5 \<and> - 180 \<le> lng p \<and> lng p \<le> 179.5
                     \<and> (\<exists>m n :: int. lat p = real_of_int m * 0.5 \<and> lng p = real_of_int n * 0.5))"
proof -
  let ?score = "\<lambda>la lo. pointLikelihood (sunAltitude t la lo) objHeight shLength"
  let ?ps = "latLoop ?score (- 60) []"
  have g: "generateShadowFinderGrid sunAltitude (Some t) objHeight shLength = Inr ?ps"
    by (simp add: generateShadowFinderGrid_def)
  have l: "length ?ps = 208800" by (rule length_grid)
  have n: "\<forall>i<290. \<forall>j<720. lat (?ps ! (i * 720 + j)) = - 60 + real i / 2
                           \<and> lng (?ps ! (i * 720 + j)) = - 180 + real j / 2"
    by (simp add: nth_grid gridPoint_def)
  have b: "\<forall>p\<in>set ?ps. - 60 \<le> lat p \<and> lat p \<le> 84.5 \<and> - 180 \<le> lng p \<and> lng p \<le> 179.5
                     \<and> (\<exists>m n :: int. lat p = real_of_int m * 0.5 \<and> lng p = real_of_int n * 0.5)"
  proof
    fix p assume "p \<in> set ?ps"
    then obtain i j where ij: "i < 290" "j < 720" and p: "p = gridPoint ?score i j"
      unfolding set_grid by blast
    have "lat p = real_of_int (int i - 120) * 0.5" "lng p = real_of_int (int j - 360) * 0.5"
      unfolding p gridPoint_def by simp_all
    moreover have "- 60 \<le> lat p" "lat p \<le> 84.5" "- 180 \<le> lng p" "lng p \<le> 179.5"
      unfolding p gridPoint_def using ij by simp_all
    ultimately show "- 60 \<le> lat p \<and> lat p \<le> 84.5 \<and> - 180 \<le> lng p \<and> lng p \<le> 179.5
                     \<and> (\<exists>m n :: int. lat p = real_of_int m * 0.5 \<and> lng p = real_of_int n * 0.5)"
      by blast
  qed
  show ?thesis using g l n b by simp
qed

theorem grid_scan_shape_witness:
  "\<exists>ps. generateShadowFinderGrid sunAlwaysDown (Some 0) 1 1 = Inr ps
      \<and> length ps = 208800
      \<and> lat (ps ! 0) = - 60 \<and> lng (ps ! 0) = - 180
      \<and> lat (ps ! 721) = - 59.5 \<and> lng (ps ! 721) = - 179.5
      \<and> lat (ps ! 208799) = 84.5 \<and> lng (ps ! 208799) = 179.5"
proof -
  obtain ps where g: "generateShadowFinderGrid sunAlwaysDown (Some 0) 1 1 = Inr ps"
    and l: "length ps = 208800"
    and n: "\<forall>i<290. \<forall>j<720. lat (ps ! (i * 720 + j)) = - 60 + real i / 2
                           \<and> lng (ps ! (i * 720 + j)) = - 180 + real j / 2"
    using grid_scan_shape[of sunAlwaysDown 0 1 1] by blast
  have "lat (ps ! (0 * 720 + 0)) = - 60 + real 0 / 2 \<and> lng (ps ! (0 * 720 + 0)) = - 180 + real 0 / 2"
    using n by (meson zero_less_numeral)
  moreover have "lat (ps ! (1 * 720 + 1)) = - 60 + real 1 / 2 \<and> lng (ps ! (1 * 720 + 1)) = - 180 + real 1 / 2"
    using n by (meson one_less_numeral_iff semiring_norm(76))
  moreover have "lat (ps ! (289 * 720 + 719)) = - 60 + real 289 / 2 \<and> lng (ps ! (289 * 720 + 719)) = - 180 + real 719 / 2"
  proof -
    have "(289::nat) < 290" "(719::nat) < 720" by simp_all
    then show ?thesis using n by blast
  qed
  ultimately show ?thesis using g l by simp
qed

section \<open>Facts about the analysis entry point\<close>

lemma inBand_eq: "inBand thr = (\<lambda>p. 0 \<le> likelihood p \<and> likelihood p \<le> thr)"
  by (simp add: fun_eq_iff inBand_def)


lemma mathMin_Min: "vs \<noteq> [] \<Longrightarrow> mathMin vs = Min (set vs)"
proof (cases vs)
  case Nil
  assume "vs \<noteq> []"
  with Nil show ?thesis by simp
next
  case (Cons a l)
  show ?thesis unfolding Cons mathMin.simps by (rule Min.set_eq_fold[symmetric])
qed

lemma mathMax_Max: "vs \<noteq> [] \<Longrightarrow> mathMax vs = Max (set vs)"
proof (cases vs)
  case Nil
  assume "vs \<noteq> []"
  with Nil show ?thesis by simp
next
  case (Cons a l)
  show ?thesis unfolding Cons mathMax.simps by (rule Max.set_eq_fold[symmetric])
qed













section \<open>Input validation\<close>




section \<open>The estimator in closed form\<close>

lemma foldl_add_sum_list:
  fixes f :: "'a \<Rightarrow> real"
  shows "foldl (\<lambda>sum p. sum + f p) a ps = a + sum_list (map f ps)"
  by (induction ps arbitrary: a) (simp_all add: add.assoc)

lemma sum_list_mset_cong:
  fixes f :: "'a \<Rightarrow> real"
  assumes "mset xs = mset ys"
  shows "sum_list (map f xs) = sum_list (map f ys)"
proof -
  have "sum_list (map f xs) = sum_mset (image_mset f (mset xs))"
    by (metis mset_map sum_mset_sum_list)
  also have "\<dots> = sum_mset (image_mset f (mset ys))" by (simp only: assms)
  also have "\<dots> = sum_list (map f ys)"
    by (metis mset_map sum_mset_sum_list)
  finally show ?thesis .
qed

lemma sum_list_sort_key:
  fixes f :: "'a \<Rightarrow> real"
  shows "sum_list (map f (sort_key k xs)) = sum_list (map f xs)"
  by (rule sum_list_mset_cong) simp

lemma estimate_closed_form:
  "estimateBestLocation result =
     (if bestSelection (points result) = [] then Inl NoSuitableLocationMatches
      else Inr \<lparr>latitude = sum_list (map lat (bestSelection (points result)))
                              / real (length (bestSelection (points result))),
                longitude = sum_list (map lng (bestSelection (points result)))
                              / real (length (bestSelection (points result))),
                accuracy =
                  max (max (spread lat (bestSelection (points result)) * 111)
                           (spread lng (bestSelection (points result)) * 111
                              * cos (sum_list (map lat (bestSelection (points result)))
                                       / real (length (bestSelection (points result)))
                                     * pi / 180)) / 2) 1\<rparr>)"
proof -
  let ?B = "bestSelection (points result)"
  let ?S = "sort_key likelihood ?B"
  have b: "filter (\<lambda>p. likelihood p \<ge> 0 \<and> likelihood p \<le> 0.1) (points result) = ?B"
    by (simp add: bestSelection_def inBand_eq)
  have e: "estimateBestLocation result =
     (if length ?S = 0 then Inl NoSuitableLocationMatches
      else Inr \<lparr>latitude = foldl (\<lambda>sum p. sum + lat p) 0 ?S / real (length ?S),
                longitude = foldl (\<lambda>sum p. sum + lng p) 0 ?S / real (length ?S),
                accuracy =
                  max (max ((mathMax (map lat ?S) - mathMin (map lat ?S)) * 111)
                           ((mathMax (map lng ?S) - mathMin (map lng ?S)) * 111
                              * cos (foldl (\<lambda>sum p. sum + lat p) 0 ?S / real (length ?S)
                                     * pi / 180)) / 2) 1\<rparr>)"
    unfolding estimateBestLocation_def b Let_def by (rule refl)
  show ?thesis
  proof (cases "?B = []")
    case True
    then show ?thesis unfolding e by simp
  next
    case False
    then have sne: "?S \<noteq> []"
      by (metis length_0_conv length_sort)
    from False sne have ne: "map lat ?S \<noteq> []" "map lng ?S \<noteq> []" "length ?S \<noteq> 0"
      by simp_all
    have mm: "mathMax (map lat ?S) - mathMin (map lat ?S) = spread lat ?B"
             "mathMax (map lng ?S) - mathMin (map lng ?S) = spread lng ?B"
      unfolding mathMax_Max[OF ne(1)] mathMin_Min[OF ne(1)]
                mathMax_Max[OF ne(2)] mathMin_Min[OF ne(2)]
      by (simp_all add: spread_def)
    show ?thesis
      unfolding e mm foldl_add_sum_list sum_list_sort_key
      using False by simp
  qed
qed

text \<open>
  Claim C6. The estimator fails with the no-match error exactly when the scan has no
  point with likelihood in [0, 0.10], and returns an estimate exactly when it has one;
  in particular it fails when every likelihood is the night sentinel or exceeds 0.10.
\<close>

theorem no_match_iff_empty_selection:
  "(estimateBestLocation result = Inl NoSuitableLocationMatches
      \<longleftrightarrow> \<not> (\<exists>p\<in>set (points result). 0 \<le> likelihood p \<and> likelihood p \<le> 0.1))
   \<and> ((\<exists>p\<in>set (points result). 0 \<le> likelihood p \<and> likelihood p \<le> 0.1)
      \<longleftrightarrow> (\<exists>e. estimateBestLocation result = Inr e))
   \<and> ((\<forall>p\<in>set (points result). likelihood p = - 1 \<or> 0.1 < likelihood p)
      \<longrightarrow> estimateBestLocation result = Inl NoSuitableLocationMatches)"
proof -
  let ?E = "\<exists>p\<in>set (points result). 0 \<le> likelihood p \<and> likelihood p \<le> 0.1"
  have s: "bestSelection (points result) = [] \<longleftrightarrow> \<not> ?E"
    by (simp add: bestSelection_def inBand_eq filter_empty_conv)
  show ?thesis
  proof (cases ?E)
    case True
    then have ne: "bestSelection (points result) \<noteq> []" using s by blast
    have ex: "\<exists>e. estimateBestLocation result = Inr e"
      unfolding estimate_closed_form[of result] if_not_P[OF ne] by (rule exI) (rule refl)
    then have no: "estimateBestLocation result \<noteq> Inl NoSuitableLocationMatches"
      by auto
    have na: "\<not> (\<forall>p\<in>set (points result). likelihood p = - 1 \<or> 0.1 < likelihood p)"
      using True by force
    from True ex no na show ?thesis by blast
  next
    case False
    then have "bestSelection (points result) = []" using s by blast
    then have no: "estimateBestLocation result = Inl NoSuitableLocationMatches"
      unfolding estimate_closed_form[of result] by (rule if_P)
    then have ne: "\<not> (\<exists>e. estimateBestLocation result = Inr e)" by simp
    from False no ne show ?thesis by blast
  qed
qed

theorem no_match_iff_empty_selection_witness:
  "estimateBestLocation
      \<lparr>points = [\<lparr>lat = 10, lng = 20, likelihood = - 1\<rparr>, \<lparr>lat = 10, lng = 20.5, likelihood = 0.3\<rparr>],
       mainBandCoordinates = \<lparr>latRange = (0, 0), lngRange = (0, 0)\<rparr>,
       statistics = \<lparr>totalPoints = 2, validPoints = 1, nightPoints = 1,
                     ultraTightBandPoints = 0, tightBandPoints = 0, visibleBandPoints = 0\<rparr>\<rparr>
     = Inl NoSuitableLocationMatches
   \<and> (\<exists>e. estimateBestLocation
        \<lparr>points = [\<lparr>lat = 10, lng = 20, likelihood = 0.1\<rparr>],
         mainBandCoordinates = \<lparr>latRange = (10, 10), lngRange = (20, 20)\<rparr>,
         statistics = \<lparr>totalPoints = 1, validPoints = 1, nightPoints = 0,
                       ultraTightBandPoints = 0, tightBandPoints = 0, visibleBandPoints = 1\<rparr>\<rparr>
        = Inr e)"
proof -
  have 1: "estimateBestLocation
      \<lparr>points = [\<lparr>lat = 10, lng = 20, likelihood = - 1\<rparr>, \<lparr>lat = 10, lng = 20.5, likelihood = 0.3\<rparr>],
       mainBandCoordinates = \<lparr>latRange = (0, 0), lngRange = (0, 0)\<rparr>,
       statistics = \<lparr>totalPoints = 2, validPoints = 1, nightPoints = 1,
                     ultraTightBandPoints = 0, tightBandPoints = 0, visibleBandPoints = 0\<rparr>\<rparr>
     = Inl NoSuitableLocationMatches"
    using no_match_iff_empty_selection
      [of "\<lparr>points = [\<lparr>lat = 10, lng = 20, likelihood = - 1\<rparr>, \<lparr>lat = 10, lng = 20.5, likelihood = 0.3\<rparr>],
       mainBandCoordinates = \<lparr>latRange = (0, 0), lngRange = (0, 0)\<rparr>,
       statistics = \<lparr>totalPoints = 2, validPoints = 1, nightPoints = 1,
                     ultraTightBandPoints = 0, tightBandPoints = 0, visibleBandPoints = 0\<rparr>\<rparr>"]
    by simp
  have 2: "\<exists>e. estimateBestLocation
        \<lparr>points = [\<lparr>lat = 10, lng = 20, likelihood = 0.1\<rparr>],
         mainBandCoordinates = \<lparr>latRange = (10, 10), lngRange = (20, 20)\<rparr>,
         statistics = \<lparr>totalPoints = 1, validPoints = 1, nightPoints = 0,
                       ultraTightBandPoints = 0, tightBandPoints = 0, visibleBandPoints = 1\<rparr>\<rparr>
        = Inr e"
    using no_match_iff_empty_selection
      [of "\<lparr>points = [\<lparr>lat = 10, lng = 20, likelihood = 0.1\<rparr>],
         mainBandCoordinates = \<lparr>latRange = (10, 10), lngRange = (20, 20)\<rparr>,
         statistics = \<lparr>totalPoints = 1, validPoints = 1, nightPoints = 0,
                       ultraTightBandPoints = 0, tightBandPoints = 0, visibleBandPoints = 1\<rparr>\<rparr>"]
    by simp
  from 1 2 show ?thesis by (rule conjI)
qed

lemma bestSelection_mset:
  "mset ps' = mset ps \<Longrightarrow> mset (bestSelection ps') = mset (bestSelection ps)"
  by (simp add: bestSelection_def)

lemma estimate_permutation:
  assumes "mset (points result') = mset (points result)"
  shows "estimateBestLocation result' = estimateBestLocation result"
proof -
  let ?B = "bestSelection (points result)" and ?B' = "bestSelection (points result')"
  have m: "mset ?B' = mset ?B" by (rule bestSelection_mset[OF assms])
  have l: "length ?B' = length ?B" by (rule mset_eq_length[OF m])
  have e: "?B' = [] \<longleftrightarrow> ?B = []" using l by (metis length_0_conv)
  have st: "set ?B' = set ?B" by (rule mset_eq_setD[OF m])
  have sp: "spread lat ?B' = spread lat ?B" "spread lng ?B' = spread lng ?B"
    by (simp_all only: spread_def st)
  have su: "sum_list (map lat ?B') = sum_list (map lat ?B)"
           "sum_list (map lng ?B') = sum_list (map lng ?B)"
    by (rule sum_list_mset_cong[OF m])+
  show ?thesis
    unfolding estimate_closed_form[of result] estimate_closed_form[of result'] l e sp su
    by (rule refl)
qed

lemma spread_single: "length ps = 1 \<Longrightarrow> spread f ps = 0"
proof -
  assume "length ps = 1"
  then obtain p where "ps = [p]" by (cases ps) auto
  then show ?thesis by (simp add: spread_def)
qed

text \<open>
  Claim C7. When some point has likelihood in [0, 0.10], the estimator returns the
  arithmetic mean latitude and longitude of all such points, and the accuracy
  \<open>max (latSpread * 111) (lngSpread * 111 * cos (latitude * pi / 180)) / 2\<close> clamped below
  at 1, so the accuracy is at least 1 and is exactly 1 when both spreads are 0, as for a
  single selected point. The result does not depend on the order of the points (nor on
  the internal sort): any rearrangement of the scan's points gives the same estimate.
\<close>

theorem centroid_and_accuracy:
  assumes "\<exists>p\<in>set (points result). 0 \<le> likelihood p \<and> likelihood p \<le> 0.1"
  shows "\<exists>e. estimateBestLocation result = Inr e
     \<and> set (bestSelection (points result))
          = {p \<in> set (points result). 0 \<le> likelihood p \<and> likelihood p \<le> 0.1}
     \<and> latitude e = sum_list (map lat (bestSelection (points result)))
                      / real (length (bestSelection (points result)))
     \<and> longitude e = sum_list (map lng (bestSelection (points result)))
                      / real (length (bestSelection (points result)))
     \<and> accuracy e = max (max (spread lat (bestSelection (points result)) * 111)
                             (spread lng (bestSelection (points result)) * 111
                                * cos (latitude e * pi / 180)) / 2) 1
     \<and> 1 \<le> accuracy e
     \<and> (spread lat (bestSelection (points result)) = 0
          \<and> spread lng (bestSelection (points result)) = 0 \<longrightarrow> accuracy e = 1)
     \<and> (length (bestSelection (points result)) = 1 \<longrightarrow> accuracy e = 1)
     \<and> (\<forall>result'. mset (points result') = mset (points result)
           \<longrightarrow> estimateBestLocation result' = Inr e)"
proof -
  let ?B = "bestSelection (points result)"
  let ?e = "\<lparr>latitude = sum_list (map lat ?B) / real (length ?B),
             longitude = sum_list (map lng ?B) / real (length ?B),
             accuracy = max (max (spread lat ?B * 111)
                                 (spread lng ?B * 111
                                    * cos (sum_list (map lat ?B) / real (length ?B) * pi / 180))
                             / 2) 1\<rparr>"
  have st: "set ?B = {p \<in> set (points result). 0 \<le> likelihood p \<and> likelihood p \<le> 0.1}"
    by (simp add: bestSelection_def inBand_eq)
  have ne: "?B \<noteq> []" using assms st by (metis (mono_tags, lifting) empty_iff list.set(1) mem_Collect_eq)
  have r: "estimateBestLocation result = Inr ?e"
    unfolding estimate_closed_form[of result] by (rule if_not_P[OF ne])
  have la: "latitude ?e = sum_list (map lat ?B) / real (length ?B)" by simp
  have lo: "longitude ?e = sum_list (map lng ?B) / real (length ?B)" by simp
  have ac: "accuracy ?e = max (max (spread lat ?B * 111)
                             (spread lng ?B * 111 * cos (latitude ?e * pi / 180)) / 2) 1"
    by simp
  have ge: "1 \<le> accuracy ?e" unfolding ac by (rule max.cobounded2)
  have z: "spread lat ?B = 0 \<and> spread lng ?B = 0 \<longrightarrow> accuracy ?e = 1"
    unfolding ac by simp
  have one: "length ?B = 1 \<longrightarrow> accuracy ?e = 1"
    using z spread_single[of ?B] by blast
  have pm: "\<forall>result'. mset (points result') = mset (points result)
           \<longrightarrow> estimateBestLocation result' = Inr ?e"
    using estimate_permutation r by metis
  from r st la lo ac ge z one pm show ?thesis by blast
qed

theorem centroid_and_accuracy_witness:
  "\<exists>e. estimateBestLocation
      \<lparr>points = [\<lparr>lat = 10, lng = 20, likelihood = 0.05\<rparr>,
                 \<lparr>lat = 12, lng = 24, likelihood = 0.1\<rparr>,
                 \<lparr>lat = 50, lng = 50, likelihood = 0.5\<rparr>],
       mainBandCoordinates = \<lparr>latRange = (10, 12), lngRange = (20, 24)\<rparr>,
       statistics = \<lparr>totalPoints = 3, validPoints = 3, nightPoints = 0,
                     ultraTightBandPoints = 1, tightBandPoints = 1, visibleBandPoints = 2\<rparr>\<rparr> = Inr e
     \<and> latitude e = 11 \<and> longitude e = 22 \<and> 1 \<le> accuracy e"
proof -
  have b: "bestSelection (points
      \<lparr>points = [\<lparr>lat = 10, lng = 20, likelihood = 0.05\<rparr>,
                 \<lparr>lat = 12, lng = 24, likelihood = 0.1\<rparr>,
                 \<lparr>lat = 50, lng = 50, likelihood = 0.5\<rparr>],
       mainBandCoordinates = \<lparr>latRange = (10, 12), lngRange = (20, 24)\<rparr>,
       statistics = \<lparr>totalPoints = 3, validPoints = 3, nightPoints = 0,
                     ultraTightBandPoints = 1, tightBandPoints = 1, visibleBandPoints = 2\<rparr>\<rparr>)
    = [\<lparr>lat = 10, lng = 20, likelihood = 0.05\<rparr>, \<lparr>lat = 12, lng = 24, likelihood = 0.1\<rparr>]"
    by (simp add: bestSelection_def inBand_def)
  have h: "\<exists>p\<in>set (points
      \<lparr>points = [\<lparr>lat = 10, lng = 20, likelihood = 0.05\<rparr>,
                 \<lparr>lat = 12, lng = 24, likelihood = 0.1\<rparr>,
                 \<lparr>lat = 50, lng = 50, likelihood = 0.5\<rparr>],
       mainBandCoordinates = \<lparr>latRange = (10, 12), lngRange = (20, 24)\<rparr>,
       statistics = \<lparr>totalPoints = 3, validPoints = 3, nightPoints = 0,
                     ultraTightBandPoints = 1, tightBandPoints = 1, visibleBandPoints = 2\<rparr>\<rparr>). 0 \<le> likelihood p \<and> likelihood p \<le> 0.1"
    by simp
  from centroid_and_accuracy[OF h] show ?thesis
    unfolding b by auto
qed

lemma mean_bounds:
  fixes f :: "'a \<Rightarrow> real"
  assumes "ps \<noteq> []" and "\<forall>p\<in>set ps. lo \<le> f p \<and> f p \<le> hi"
  shows "lo \<le> sum_list (map f ps) / real (length ps)
       \<and> sum_list (map f ps) / real (length ps) \<le> hi"
proof -
  have n: "0 < real (length ps)" using assms(1) by simp
  have "sum_list (map (\<lambda>p. lo) ps) \<le> sum_list (map f ps)"
    using assms(2) by (intro sum_list_mono) simp
  then have l: "real (length ps) * lo \<le> sum_list (map f ps)"
    by (simp add: sum_list_triv)
  have "sum_list (map f ps) \<le> sum_list (map (\<lambda>p. hi) ps)"
    using assms(2) by (intro sum_list_mono) simp
  then have u: "sum_list (map f ps) \<le> real (length ps) * hi"
    by (simp add: sum_list_triv)
  from l u n show ?thesis
    by (simp add: pos_le_divide_eq pos_divide_le_eq mult.commute)
qed

text \<open>
  Claim C10. If every point of the list has its latitude in [-60, 84.5] and its longitude
  in [-180, 179.5], a successful estimate has its latitude and longitude in the same
  bounds: the centroid of a non-empty selection never leaves the grid.
\<close>

theorem estimate_within_grid_bounds:
  assumes "\<forall>p\<in>set (points result).
             - 60 \<le> lat p \<and> lat p \<le> 84.5 \<and> - 180 \<le> lng p \<and> lng p \<le> 179.5"
      and "estimateBestLocation result = Inr e"
  shows "- 60 \<le> latitude e \<and> latitude e \<le> 84.5
       \<and> - 180 \<le> longitude e \<and> longitude e \<le> 179.5"
proof -
  let ?B = "bestSelection (points result)"
  have ne: "?B \<noteq> []"
    using assms(2) unfolding estimate_closed_form[of result] by (auto split: if_splits)
  have sub: "set ?B \<subseteq> set (points result)" by (simp add: bestSelection_def)
  have e: "latitude e = sum_list (map lat ?B) / real (length ?B)"
          "longitude e = sum_list (map lng ?B) / real (length ?B)"
    using assms(2) ne unfolding estimate_closed_form[of result] by auto
  have bl: "\<forall>p\<in>set ?B. - 60 \<le> lat p \<and> lat p \<le> 84.5"
    using assms(1) sub by blast
  have bg: "\<forall>p\<in>set ?B. - 180 \<le> lng p \<and> lng p \<le> 179.5"
    using assms(1) sub by blast
  show ?thesis
    unfolding e using mean_bounds[OF ne bl] mean_bounds[OF ne bg] by blast
qed

theorem estimate_within_grid_bounds_witness:
  "estimateBestLocation
      \<lparr>points = [\<lparr>lat = 10, lng = 20, likelihood = 0.1\<rparr>],
       mainBandCoordinates = \<lparr>latRange = (10, 10), lngRange = (20, 20)\<rparr>,
       statistics = \<lparr>totalPoints = 1, validPoints = 1, nightPoints = 0,
                     ultraTightBandPoints = 0, tightBandPoints = 0, visibleBandPoints = 1\<rparr>\<rparr> = Inr \<lparr>latitude = 10, longitude = 20, accuracy = 1\<rparr>
   \<and> - 60 \<le> latitude \<lparr>latitude = 10, longitude = 20, accuracy = 1\<rparr>
   \<and> latitude \<lparr>latitude = 10, longitude = 20, accuracy = 1\<rparr> \<le> 84.5
   \<and> - 180 \<le> longitude \<lparr>latitude = 10, longitude = 20, accuracy = 1\<rparr>
   \<and> longitude \<lparr>latitude = 10, longitude = 20, accuracy = 1\<rparr> \<le> 179.5"
proof -
  have h1: "\<forall>p\<in>set (points
      \<lparr>points = [\<lparr>lat = 10, lng = 20, likelihood = 0.1\<rparr>],
       mainBandCoordinates = \<lparr>latRange = (10, 10), lngRange = (20, 20)\<rparr>,
       statistics = \<lparr>totalPoints = 1, validPoints = 1, nightPoints = 0,
                     ultraTightBandPoints = 0, tightBandPoints = 0, visibleBandPoints = 1\<rparr>\<rparr>). - 60 \<le> lat p \<and> lat p \<le> 84.5 \<and> - 180 \<le> lng p \<and> lng p \<le> 179.5"
    by simp
  have h2: "estimateBestLocation
      \<lparr>points = [\<lparr>lat = 10, lng = 20, likelihood = 0.1\<rparr>],
       mainBandCoordinates = \<lparr>latRange = (10, 10), lngRange = (20, 20)\<rparr>,
       statistics = \<lparr>totalPoints = 1, validPoints = 1, nightPoints = 0,
                     ultraTightBandPoints = 0, tightBandPoints = 0, visibleBandPoints = 1\<rparr>\<rparr> = Inr \<lparr>latitude = 10, longitude = 20, accuracy = 1\<rparr>"
    by (simp add: estimateBestLocation_def Let_def)
  from estimate_within_grid_bounds[OF h1 h2] h2 show ?thesis by blast
qed

section \<open>Coordinate keys\<close>





















section \<open>The intersection as a filter over paired cells\<close>















section \<open>The estimates of a two-photo session\<close>





section \<open>The two-photo example\<close>


















end
